theory Spec2Isabelle
  imports Complex_Main "HOL-Library.Log_Nat"
begin

section \<open>Python values used by urlValidator.py\<close>

text \<open>
  A Python \<open>str\<close> is modelled as a \<open>string\<close>, one \<open>char\<close> per code point (so the
  model covers the strings whose code points are below 256); \<open>len\<close> is \<open>length\<close>.
  A value that is either a \<open>str\<close> or \<open>None\<close> is a \<open>string option\<close>.
\<close>

text \<open>
  Python numbers: an unbounded \<open>int\<close>, or a \<open>float\<close>. A finite float is carried by the
  rational number that the IEEE double denotes exactly; the two infinities and NaN are
  separate constructors.
\<close>

datatype pynum = PyInt int | PyFloat rat | PyInf | PyNegInf | PyNaN

text \<open>Exceptions that the modelled code can raise and does not catch.\<close>

datatype pyexc = KeyError string | TypeError string | OverflowError string | ZeroDivisionError string

text \<open>\<open>a < b\<close> on Python numbers: exact comparison of the values, false when a NaN is involved.\<close>

fun num_less :: "pynum \<Rightarrow> pynum \<Rightarrow> bool" where
  "num_less PyNaN _ = False"
| "num_less _ PyNaN = False"
| "num_less _ PyNegInf = False"
| "num_less PyNegInf _ = True"
| "num_less PyInf _ = False"
| "num_less _ PyInf = True"
| "num_less (PyInt a) (PyInt b) = (a < b)"
| "num_less (PyInt a) (PyFloat b) = (of_int a < b)"
| "num_less (PyFloat a) (PyInt b) = (a < of_int b)"
| "num_less (PyFloat a) (PyFloat b) = (a < b)"

subsection \<open>Rounding to a double\<close>

definition pow2 :: "int \<Rightarrow> rat" where
  "pow2 k = (if 0 \<le> k then 2 ^ nat k else 1 / 2 ^ nat (- k))"

definition round_half_even :: "rat \<Rightarrow> int" where
  "round_half_even x =
     (let f = \<lfloor>x\<rfloor>; r = x - of_int f
      in if r < 1 / 2 then f
         else if 1 / 2 < r then f + 1
         else if even f then f else f + 1)"

text \<open>For \<open>0 < q\<close>, the exponent \<open>e\<close> with \<open>2^e \<le> q < 2^(e+1)\<close>, found from the bit lengths
  of numerator and denominator.\<close>

definition binary_exponent :: "rat \<Rightarrow> int" where
  "binary_exponent q =
     (let (a, b) = quotient_of q; d = bitlen a - bitlen b
      in if pow2 d \<le> q then d else d - 1)"

text \<open>The double nearest to \<open>q\<close> (ties to even, 53 significant bits, subnormals below
  \<open>2^-1022\<close>), as an exact rational; overflow is left to the caller.\<close>

definition round_double :: "rat \<Rightarrow> rat" where
  "round_double q =
     (if q = 0 then 0
      else let e = max (binary_exponent \<bar>q\<bar>) (- 1022);
               m = round_half_even (q * pow2 (52 - e))
           in of_int m * pow2 (e - 52))"

text \<open>A float literal of the source, such as \<open>0.1\<close>, denotes the double nearest to it.\<close>

definition float_literal :: "rat \<Rightarrow> pynum" where
  "float_literal q = PyFloat (round_double q)"

subsection \<open>String helpers\<close>

text \<open>\<open>s.startswith(p)\<close>\<close>

definition startswith :: "string \<Rightarrow> string \<Rightarrow> bool" where
  "startswith s p = (take (length p) s = p)"

text \<open>Truthiness of a \<open>str\<close> and of a \<open>str\<close>-or-\<open>None\<close> value, of a list.\<close>

definition truthy_str :: "string \<Rightarrow> bool" where
  "truthy_str s = (s \<noteq> [])"

fun truthy_opt :: "string option \<Rightarrow> bool" where
  "truthy_opt None = False"
| "truthy_opt (Some s) = truthy_str s"

definition truthy_list :: "'a list \<Rightarrow> bool" where
  "truthy_list xs = (xs \<noteq> [])"

section \<open>The page information and the SEO score\<close>

text \<open>The \<open>headings\<close> dictionary built by \<open>extract_page_info\<close> has exactly the six keys
  \<open>'h1'\<close> .. \<open>'h6'\<close>; it is a record with these fields.\<close>

record headings =
  h1 :: "string list"
  h2 :: "string list"
  h3 :: "string list"
  h4 :: "string list"
  h5 :: "string list"
  h6 :: "string list"

text \<open>The dictionary returned by \<open>extract_page_info\<close>; the key \<open>keywords\<close> is a reserved word
  of the theory language, so its field is \<open>page_keywords\<close>.\<close>

record page_info =
  title :: "string option"
  description :: string
  page_keywords :: string
  internal_links :: "string list"
  external_links :: "string list"
  headings :: headings
  alt_tags :: "string list"
  text_to_html_ratio :: pynum
  page_load_time :: pynum
  mobile_friendly :: bool

text \<open>\<open>URLValidator._seo_analysis\<close>: \<open>score\<close> starts at 0 and every rule adds to it in turn.
  In \<open>title and len(title) <= 60\<close> the length is taken only of a truthy title, so not of
  \<open>None\<close>.\<close>

definition seo_analysis ::
  "string option \<Rightarrow> string \<Rightarrow> string \<Rightarrow> headings \<Rightarrow> string list \<Rightarrow> pynum \<Rightarrow> pynum \<Rightarrow> bool
     \<Rightarrow> string list \<Rightarrow> string list \<Rightarrow> int" where
  "seo_analysis title' description' keywords' headings' alt_tags' text_to_html_ratio'
       page_load_time' mobile_friendly' internal_links' external_links' =
     (let score = 0;
          score = (if (case title' of None \<Rightarrow> False | Some s \<Rightarrow> truthy_str s \<and> length s \<le> 60)
                   then score + 10
                   else if truthy_opt title' then score + 5 else score);
          score = (if truthy_str description' \<and> 150 \<le> length description'
                        \<and> length description' \<le> 160 then score + 10
                   else if truthy_str description' then score + 5 else score);
          score = (if truthy_str keywords' then score + 10 else score);
          score = (if truthy_list (h1 headings') then score + 10 else score);
          score = (if truthy_list (h2 headings') then score + 5 else score);
          score = (if truthy_list internal_links' then score + 10 else score);
          score = (if truthy_list external_links' then score + 10 else score);
          score = (if truthy_list alt_tags' then score + 10 else score);
          score = (if num_less (float_literal (1 / 10)) text_to_html_ratio' then score + 10
                   else score);
          score = (if num_less page_load_time' (PyInt 3) then score + 10
                   else if num_less page_load_time' (PyInt 5) then score + 5 else score);
          score = (if mobile_friendly' then score + 10 else score)
      in score)"

section \<open>URL checks\<close>

text \<open>\<open>URLValidator.is_https\<close>\<close>

definition is_https :: "string \<Rightarrow> bool" where
  "is_https url = startswith url ''https://''"

text \<open>
  \<open>re.match(regex, url)\<close> for the constructs of the pattern \<open>^(https?|ftp)://\<close>:
  literal characters, sequence, alternation, the optional \<open>?\<close> and the anchor \<open>^\<close>.
  A position is the number of characters consumed and the rest of the string; the matcher
  backtracks, so it returns every end position in the order Python tries them.
\<close>

datatype regex = Lit char | Eps | Seq regex regex | Alt regex regex | Opt regex | Bol

text \<open>\<open>str.lower\<close> on one code point below 256: the letters A-Z and the upper-case
  letters of Latin-1 (\<open>0xC0\<close> to \<open>0xDE\<close> without the multiplication sign \<open>0xD7\<close>).\<close>

definition py_lower :: "char \<Rightarrow> char" where
  "py_lower c =
     (let n = (of_char c :: nat)
      in if (65 \<le> n \<and> n \<le> 90) \<or> (192 \<le> n \<and> n \<le> 222 \<and> n \<noteq> 215)
         then char_of (n + 32) else c)"

fun rmatch :: "bool \<Rightarrow> regex \<Rightarrow> nat \<times> string \<Rightarrow> (nat \<times> string) list" where
  "rmatch ic (Lit c) (n, []) = []"
| "rmatch ic (Lit c) (n, x # xs) =
     (if (if ic then py_lower x = py_lower c else x = c) then [(Suc n, xs)] else [])"
| "rmatch ic Eps p = [p]"
| "rmatch ic (Seq r1 r2) p = concat (map (rmatch ic r2) (rmatch ic r1 p))"
| "rmatch ic (Alt r1 r2) p = rmatch ic r1 p @ rmatch ic r2 p"
| "rmatch ic (Opt r) p = rmatch ic r p @ [p]"
| "rmatch ic Bol (n, s) = (if n = 0 then [(n, s)] else [])"

text \<open>\<open>re.match\<close> with or without \<open>re.IGNORECASE\<close>: the first match from position 0, or
  \<open>None\<close>.\<close>

definition re_match :: "bool \<Rightarrow> regex \<Rightarrow> string \<Rightarrow> (nat \<times> string) option" where
  "re_match ignorecase r s = (case rmatch ignorecase r (0, s) of [] \<Rightarrow> None | p # _ \<Rightarrow> Some p)"

text \<open>A run of literal characters.\<close>

fun lits :: "string \<Rightarrow> regex" where
  "lits [] = Eps"
| "lits (c # cs) = Seq (Lit c) (lits cs)"

text \<open>The pattern \<open>r'^(https?|ftp)://'\<close>.\<close>

definition scheme_regex :: regex where
  "scheme_regex =
     Seq Bol (Seq (Alt (Seq (lits ''http'') (Opt (Lit CHR ''s''))) (lits ''ftp'')) (lits ''://''))"

text \<open>\<open>URLValidator._is_valid_url\<close>\<close>

definition is_valid_url :: "string \<Rightarrow> bool" where
  "is_valid_url url = (re_match True scheme_regex url \<noteq> None)"

text \<open>The scheme check in the words of the specification: the string begins with
  \<open>http://\<close>, \<open>https://\<close> or \<open>ftp://\<close>, compared without regard to case.\<close>

definition spec_scheme_prefix :: "string \<Rightarrow> bool" where
  "spec_scheme_prefix url =
     (startswith (map py_lower url) ''http://'' \<or> startswith (map py_lower url) ''https://''
        \<or> startswith (map py_lower url) ''ftp://'')"

text \<open>\<open>p\<close> is a prefix of \<open>s\<close> when case is ignored.\<close>

definition ci_prefix :: "string \<Rightarrow> string \<Rightarrow> bool" where
  "ci_prefix p s = (length p \<le> length s \<and> map py_lower (take (length p) s) = map py_lower p)"

section \<open>The outside world\<close>

text \<open>The exception classes of \<open>requests.exceptions\<close>; every one of them is a subclass
  of \<open>RequestException\<close>.\<close>

datatype requests_exception =
    RequestException | InvalidJSONError | JSONDecodeError | HTTPError | ConnectionError
  | ProxyError | SSLError | Timeout | ConnectTimeout | ReadTimeout | URLRequired
  | TooManyRedirects | MissingSchema | InvalidSchema | InvalidURL | InvalidHeader
  | InvalidProxyURL | ChunkedEncodingError | ContentDecodingError | StreamConsumedError
  | RetryError | UnrewindableBodyError

text \<open>\<open>isinstance(e, requests.exceptions.Timeout)\<close>: \<open>ConnectTimeout\<close> and \<open>ReadTimeout\<close>
  derive from \<open>Timeout\<close>.\<close>

definition is_Timeout :: "requests_exception \<Rightarrow> bool" where
  "is_Timeout c = (c = Timeout \<or> c = ConnectTimeout \<or> c = ReadTimeout)"

definition is_TooManyRedirects :: "requests_exception \<Rightarrow> bool" where
  "is_TooManyRedirects c = (c = TooManyRedirects)"

text \<open>
  What one \<open>requests.get(url, timeout=5)\<close> does: it returns a response (status code,
  body text, and the float that \<open>response.elapsed.total_seconds()\<close> gives), or it raises
  an exception of the given class whose \<open>str\<close> is the given text.
\<close>

datatype http_outcome = Response int string rat | Raises requests_exception string

text \<open>What \<open>ssl.get_server_certificate\<close> does: the PEM text, or an exception with its
  \<open>str\<close>.\<close>

datatype tls_outcome = Certificate string | TlsRaises string

text \<open>A parsed document: tags with a name, attributes and children; text
  (\<open>NavigableString\<close> or \<open>CData\<close>); and strings of the other classes (\<open>Comment\<close>,
  \<open>Doctype\<close>, \<open>Script\<close>, \<open>Stylesheet\<close>, ...), which \<open>get_text\<close> leaves out.\<close>

datatype node =
    Tag string "(string \<times> string) list" "node list"
  | NavigableString string
  | OtherString string

text \<open>
  The world a run meets: the verdict of \<open>validators.url\<close> (true, or the falsy failure
  object), the outcome of the k-th GET request of the run, the outcome of the TLS
  handshake with a host and port, and the children of the document that
  \<open>BeautifulSoup(content, 'html.parser')\<close> builds.
\<close>

record world =
  validators_url :: "string \<Rightarrow> bool"
  http_get :: "nat \<Rightarrow> string \<Rightarrow> http_outcome"
  get_server_certificate :: "string \<Rightarrow> int \<Rightarrow> tls_outcome"
  html_parser :: "string \<Rightarrow> node list"

text \<open>A value interpolated into a printed or logged line.\<close>

datatype pyval =
    NoVal | StrVal string | StrOptVal "string option" | IntVal int | NumVal pynum
  | ListVal "string list" | HeadingsVal headings

text \<open>The effects of a run, in order: each GET with its timeout, each TLS handshake, each
  construction of a parsed document, each printed and each logged line (its fixed text and
  the value interpolated after it).\<close>

datatype event =
    SetupLogging
  | HttpGet string nat
  | GetServerCertificate string int
  | BeautifulSoup string
  | Print string pyval
  | LogInfo string pyval

fun is_HttpGet :: "event \<Rightarrow> bool" where
  "is_HttpGet (HttpGet _ _) = True"
| "is_HttpGet _ = False"

fun is_network :: "event \<Rightarrow> bool" where
  "is_network (HttpGet _ _) = True"
| "is_network (GetServerCertificate _ _) = True"
| "is_network _ = False"

text \<open>\<open>requests.get(self.url, timeout=5)\<close>: the outcome is that of the next request of the
  run, and the request is recorded.\<close>

definition requests_get :: "world \<Rightarrow> string \<Rightarrow> event list \<Rightarrow> http_outcome \<times> event list" where
  "requests_get w url tr = (http_get w (length (filter is_HttpGet tr)) url, tr @ [HttpGet url 5])"

section \<open>Fetching\<close>

text \<open>The first component of what \<open>get_status_code\<close> returns: an \<open>int\<close> or a \<open>str\<close>.\<close>

datatype status = StatusInt int | StatusStr string

text \<open>
  \<open>URLValidator.get_status_code\<close>. The \<open>except\<close> clauses are tried in the source's order:
  \<open>Timeout\<close>, \<open>TooManyRedirects\<close>, then \<open>RequestException\<close>, which catches every other
  exception of \<open>requests\<close>.
\<close>

definition get_status_code ::
  "world \<Rightarrow> string \<Rightarrow> event list \<Rightarrow> (status \<times> string option) \<times> event list" where
  "get_status_code w url tr =
     (let (outcome, tr') = requests_get w url tr
      in case outcome of
           Response status_code text elapsed \<Rightarrow> ((StatusInt status_code, Some text), tr')
         | Raises c e \<Rightarrow>
             if is_Timeout c then ((StatusStr ''Request Timeout'', None), tr')
             else if is_TooManyRedirects c then ((StatusStr ''Too Many Redirects'', None), tr')
             else ((StatusStr (''Request Exception: '' @ e), None), tr'))"

section \<open>Reading the parsed document\<close>

text \<open>A node and everything below it, in document order.\<close>

fun descendants :: "node \<Rightarrow> node list" where
  "descendants (NavigableString s) = [NavigableString s]"
| "descendants (OtherString s) = [OtherString s]"
| "descendants (Tag name attrs contents) = Tag name attrs contents # concat (map descendants contents)"

definition all_nodes :: "node list \<Rightarrow> node list" where
  "all_nodes soup = concat (map descendants soup)"

fun is_tag :: "string \<Rightarrow> node \<Rightarrow> bool" where
  "is_tag name (Tag n attrs contents) = (n = name)"
| "is_tag name (NavigableString s) = False"
| "is_tag name (OtherString s) = False"

text \<open>\<open>tag.attrs\<close>, a dictionary, and \<open>key in tag.attrs\<close> / \<open>tag[key]\<close> through \<open>map_of\<close>.\<close>

fun attrs_of :: "node \<Rightarrow> (string \<times> string) list" where
  "attrs_of (Tag n attrs contents) = attrs"
| "attrs_of (NavigableString s) = []"
| "attrs_of (OtherString s) = []"

definition get_attr :: "node \<Rightarrow> string \<Rightarrow> string option" where
  "get_attr x key = map_of (attrs_of x) key"

text \<open>\<open>tag[key]\<close> raises \<open>KeyError\<close> when the tag has no such attribute.\<close>

definition getitem :: "node \<Rightarrow> string \<Rightarrow> pyexc + string" where
  "getitem x key = (case get_attr x key of None \<Rightarrow> Inl (KeyError key) | Some v \<Rightarrow> Inr v)"

text \<open>\<open>soup.find_all(name)\<close>\<close>

definition find_all :: "node list \<Rightarrow> string \<Rightarrow> node list" where
  "find_all soup name = filter (is_tag name) (all_nodes soup)"

text \<open>\<open>[x[key] for x in tags if key in x.attrs]\<close>: the attribute of every tag that has
  it. \<open>soup.find_all('a', href=True)\<close> keeps the tags that have an \<open>href\<close>, so the same
  function gives \<open>[a['href'] for a in soup.find_all('a', href=True)]\<close>.\<close>

definition attr_values :: "string \<Rightarrow> node list \<Rightarrow> string list" where
  "attr_values key tags = List.map_filter (\<lambda>x. get_attr x key) tags"

text \<open>The first element of a list of results, or \<open>None\<close>.\<close>

fun first_of :: "'a list \<Rightarrow> 'a option" where
  "first_of [] = None"
| "first_of (x # xs) = Some x"

text \<open>\<open>soup.find(name)\<close> and \<open>soup.find('meta', attrs={'name': v})\<close>\<close>

definition find_tag :: "node list \<Rightarrow> string \<Rightarrow> node option" where
  "find_tag soup name = first_of (find_all soup name)"

definition find_meta :: "node list \<Rightarrow> string \<Rightarrow> node option" where
  "find_meta soup v = first_of (filter (\<lambda>x. get_attr x ''name'' = Some v) (find_all soup ''meta''))"

text \<open>\<open>tag.string\<close>: the string of a tag whose only child is a string of any class, or
  whose only child is a tag with such a \<open>string\<close>; \<open>None\<close> otherwise.\<close>

fun tag_string :: "node \<Rightarrow> string option" where
  "tag_string (NavigableString s) = Some s"
| "tag_string (OtherString s) = Some s"
| "tag_string (Tag n attrs [c]) = tag_string c"
| "tag_string (Tag n attrs contents) = None"

text \<open>\<open>str.isspace\<close> on one code point below 256, and \<open>str.strip()\<close>.\<close>

definition py_isspace :: "char \<Rightarrow> bool" where
  "py_isspace c =
     (let n = (of_char c :: nat)
      in (9 \<le> n \<and> n \<le> 13) \<or> (28 \<le> n \<and> n \<le> 32) \<or> n = 133 \<or> n = 160)"

definition py_strip :: "string \<Rightarrow> string" where
  "py_strip s = rev (dropWhile py_isspace (rev (dropWhile py_isspace s)))"

text \<open>The texts below a node, in document order.\<close>

fun strings_of :: "node \<Rightarrow> string list" where
  "strings_of (NavigableString s) = [s]"
| "strings_of (OtherString s) = []"
| "strings_of (Tag n attrs contents) = concat (map strings_of contents)"

text \<open>\<open>soup.get_text()\<close> and \<open>tag.get_text(strip=True)\<close>, which strips every text and
  drops those that become empty.\<close>

definition get_text :: "node list \<Rightarrow> string" where
  "get_text soup = concat (concat (map strings_of soup))"

definition get_text_strip :: "node \<Rightarrow> string" where
  "get_text_strip x = concat (filter (\<lambda>t. t \<noteq> []) (map py_strip (strings_of x)))"

section \<open>Formatting\<close>

text \<open>\<open>str(n)\<close> for an \<open>int\<close>: decimal digits, with a minus sign.\<close>

fun str_nat :: "nat \<Rightarrow> string" where
  "str_nat n = (if n < 10 then [char_of (48 + n)] else str_nat (n div 10) @ [char_of (48 + n mod 10)])"

declare str_nat.simps [simp del]

definition str_int :: "int \<Rightarrow> string" where
  "str_int i = (if i < 0 then ''-'' @ str_nat (nat (- i)) else str_nat (nat i))"

text \<open>\<open>f"{status_code}"\<close>\<close>

fun format_status :: "status \<Rightarrow> string" where
  "format_status (StatusInt n) = str_int n"
| "format_status (StatusStr s) = s"

text \<open>\<open>s.replace(old, new)\<close>: every occurrence, left to right, without overlap; with an
  empty \<open>old\<close>, \<open>new\<close> goes before every character and at the end.\<close>

fun replace_from :: "string \<Rightarrow> string \<Rightarrow> string \<Rightarrow> string" where
  "replace_from old new [] = []"
| "replace_from old new (c # cs) =
     (if startswith (c # cs) old \<and> old \<noteq> []
      then new @ replace_from old new (drop (length old) (c # cs))
      else c # replace_from old new cs)"

definition py_replace :: "string \<Rightarrow> string \<Rightarrow> string \<Rightarrow> string" where
  "py_replace s old new =
     (if old = [] then new @ concat (map (\<lambda>c. c # new) s) else replace_from old new s)"

section \<open>Numbers\<close>

text \<open>
  \<open>a / b\<close> on two \<open>int\<close>s: \<open>ZeroDivisionError\<close> for a zero divisor; otherwise the double
  nearest to the quotient, and \<open>OverflowError\<close> when that is beyond the largest double.
\<close>

definition int_true_divide :: "int \<Rightarrow> int \<Rightarrow> pyexc + pynum" where
  "int_true_divide a b =
     (if b = 0 then Inl (ZeroDivisionError ''division by zero'')
      else let r = round_double (of_int a / of_int b)
           in if 2 ^ 1024 \<le> \<bar>r\<bar>
              then Inl (OverflowError ''integer division result too large for a float'')
              else Inr (PyFloat r))"

section \<open>The validator\<close>

text \<open>\<open>URLValidator.is_valid_format\<close>; \<open>and\<close> does not call \<open>validators.url\<close> when the
  pattern does not match.\<close>

definition is_valid_format :: "world \<Rightarrow> string \<Rightarrow> bool" where
  "is_valid_format w url = (if is_valid_url url then validators_url w url else False)"

text \<open>\<open>URLValidator._measure_page_load_time\<close>: one more GET; \<open>float('inf')\<close> when it
  raises.\<close>

definition measure_page_load_time :: "world \<Rightarrow> string \<Rightarrow> event list \<Rightarrow> pynum \<times> event list" where
  "measure_page_load_time w url tr =
     (let (outcome, tr') = requests_get w url tr
      in case outcome of
           Response status_code text elapsed \<Rightarrow> (PyFloat elapsed, tr')
         | Raises c e \<Rightarrow> (PyInf, tr'))"

text \<open>\<open>URLValidator._is_mobile_friendly\<close>\<close>

definition is_mobile_friendly :: "node list \<Rightarrow> bool" where
  "is_mobile_friendly soup = (find_meta soup ''viewport'' \<noteq> None)"

text \<open>\<open>x['content'] if x else dflt\<close>, for the result \<open>x\<close> of a \<open>find\<close>.\<close>

fun content_or_default :: "node option \<Rightarrow> string \<Rightarrow> pyexc + string" where
  "content_or_default None dflt = Inr dflt"
| "content_or_default (Some x) dflt = getitem x ''content''"

text \<open>What \<open>extract_page_info\<close> returns: the error string or the dictionary.\<close>

datatype page_result = ErrorStr string | PageInfo page_info

text \<open>
  \<open>URLValidator.extract_page_info\<close>. An exception that the method does not catch ends it
  with \<open>Inl\<close>; the effects up to that point stay in the trace. A status of 200 comes with
  a body; \<open>BeautifulSoup(None)\<close> would raise \<open>TypeError\<close>.
\<close>

definition extract_page_info ::
  "world \<Rightarrow> string \<Rightarrow> event list \<Rightarrow> (pyexc + page_result) \<times> event list" where
  "extract_page_info w url tr =
     (let ((status_code, content), tr1) = get_status_code w url tr
      in if status_code \<noteq> StatusInt 200
         then (Inr (ErrorStr (''Error: Status code '' @ format_status status_code)), tr1)
         else (case content of
           None \<Rightarrow> (Inl (TypeError ''object of type NoneType has no len()''), tr1)
         | Some content \<Rightarrow>
             let soup = html_parser w content;
                 tr2 = tr1 @ [BeautifulSoup content];
                 title' = (case find_tag soup ''title'' of
                             Some t \<Rightarrow> tag_string t | None \<Rightarrow> Some ''No Title'')
             in (case content_or_default (find_meta soup ''description'') ''No Description'' of
                  Inl e \<Rightarrow> (Inl e, tr2)
                | Inr description_content \<Rightarrow>
               (case content_or_default (find_meta soup ''keywords'') ''No Keywords'' of
                  Inl e \<Rightarrow> (Inl e, tr2)
                | Inr keywords_content \<Rightarrow>
                 let hrefs = attr_values ''href'' (find_all soup ''a'');
                     internal_links' = filter (\<lambda>h. startswith h ''/'') hrefs;
                     external_links' = filter (\<lambda>h. \<not> startswith h ''/'') hrefs;
                     headings' = \<lparr>h1 = map get_text_strip (find_all soup ''h1''),
                                  h2 = map get_text_strip (find_all soup ''h2''),
                                  h3 = map get_text_strip (find_all soup ''h3''),
                                  h4 = map get_text_strip (find_all soup ''h4''),
                                  h5 = map get_text_strip (find_all soup ''h5''),
                                  h6 = map get_text_strip (find_all soup ''h6'')\<rparr>;
                     images = find_all soup ''img'';
                     alt_tags' = attr_values ''alt'' images;
                     text_length = int (length (get_text soup));
                     html_length = int (length content)
                 in (case (if 0 < html_length then int_true_divide text_length html_length
                           else Inr (PyInt 0)) of
                      Inl e \<Rightarrow> (Inl e, tr2)
                    | Inr text_to_html_ratio' \<Rightarrow>
                        let (page_load_time', tr3) = measure_page_load_time w url tr2;
                            mobile_friendly' = is_mobile_friendly soup
                        in (Inr (PageInfo \<lparr>title = title',
                                           description = description_content,
                                           page_keywords = keywords_content,
                                           internal_links = internal_links',
                                           external_links = external_links',
                                           headings = headings',
                                           alt_tags = alt_tags',
                                           text_to_html_ratio = text_to_html_ratio',
                                           page_load_time = page_load_time',
                                           mobile_friendly = mobile_friendly'\<rparr>), tr3))))))"

text \<open>\<open>URLValidator.check_ssl_certificate\<close>; \<open>except Exception\<close> catches whatever the
  handshake raises.\<close>

definition check_ssl_certificate :: "world \<Rightarrow> string \<Rightarrow> event list \<Rightarrow> string \<times> event list" where
  "check_ssl_certificate w url tr =
     (if \<not> is_https url then (''No SSL Certificate for non-HTTPS URLs'', tr)
      else let host = py_replace url ''https://'' [];
               tr' = tr @ [GetServerCertificate host 443]
           in case get_server_certificate w host 443 of
                Certificate cert \<Rightarrow> (cert, tr')
              | TlsRaises e \<Rightarrow> (''SSL Certificate Error: '' @ e, tr'))"

section \<open>The run\<close>

definition yes_no :: "bool \<Rightarrow> pyval" where
  "yes_no b = StrVal (if b then ''Yes'' else ''No'')"

text \<open>The ten lines that print the fields of \<open>page_info\<close>, with \<open>print\<close> or
  \<open>logging.info\<close> as \<open>out\<close>.\<close>

definition page_lines :: "(string \<Rightarrow> pyval \<Rightarrow> event) \<Rightarrow> page_info \<Rightarrow> event list" where
  "page_lines out p =
     [out ''Title: '' (StrOptVal (title p)),
      out ''Description: '' (StrVal (description p)),
      out ''Keywords: '' (StrVal (page_keywords p)),
      out ''Internal Links: '' (ListVal (internal_links p)),
      out ''External Links: '' (ListVal (external_links p)),
      out ''Headings: '' (HeadingsVal (headings p)),
      out ''Alt Tags: '' (ListVal (alt_tags p)),
      out ''Text to HTML Ratio: '' (NumVal (text_to_html_ratio p)),
      out ''Page Load Time: '' (NumVal (page_load_time p)),
      out ''Mobile Friendly: '' (yes_no (mobile_friendly p))]"

text \<open>\<open>log_results\<close>\<close>

definition log_results :: "string \<Rightarrow> int \<Rightarrow> bool \<Rightarrow> string \<Rightarrow> page_info \<Rightarrow> event list" where
  "log_results url status_code https_check ssl_info p =
     [LogInfo ''URL: '' (StrVal url),
      LogInfo ''Status Code: '' (IntVal status_code),
      LogInfo ''HTTPS Check: '' (yes_no https_check),
      LogInfo ''SSL Certificate: '' (StrVal ssl_info)] @ page_lines LogInfo p"

text \<open>
  \<open>main\<close>. The result is \<open>Inr ()\<close> when the run ends normally and \<open>Inl e\<close> when the
  exception \<open>e\<close> ends it. \<open>page_info['title']\<close> on the error string raises \<open>TypeError\<close>.
\<close>

definition main :: "world \<Rightarrow> string \<Rightarrow> (pyexc + unit) \<times> event list" where
  "main w url =
     (let tr0 = [SetupLogging]
      in if is_valid_format w url then
           let ((status_code, _), tr1) = get_status_code w url tr0;
               https_check = is_https url;
               (r, tr2) = extract_page_info w url tr1
           in (case r of
                Inl e \<Rightarrow> (Inl e, tr2)
              | Inr page_info \<Rightarrow>
                  let (ssl_info, tr3) = check_ssl_certificate w url tr2
                  in (case status_code of
                       StatusInt code \<Rightarrow>
                         let tr4 = tr3 @
                               [Print ''URL is valid and returned status code: '' (IntVal code),
                                Print ''HTTPS Check: '' (yes_no https_check),
                                Print ''SSL Certificate: '' (StrVal ssl_info),
                                Print ''Page Info:'' NoVal]
                         in (case page_info of
                               ErrorStr s \<Rightarrow>
                                 (Inl (TypeError ''string indices must be integers''), tr4)
                             | PageInfo p \<Rightarrow>
                                 let seo_score = seo_analysis (title p) (description p)
                                       (page_keywords p) (headings p) (alt_tags p)
                                       (text_to_html_ratio p) (page_load_time p)
                                       (mobile_friendly p) (internal_links p) (external_links p)
                                 in (Inr (), tr4 @ page_lines Print p
                                        @ [Print ''SEO Score: '' (IntVal seo_score)]
                                        @ log_results url code https_check ssl_info p))
                     | StatusStr s \<Rightarrow> (Inr (), tr3 @ [Print ''Error: '' (StrVal s)])))
         else (Inr (), tr0 @ [Print ''URL format is invalid.'' NoVal]))"

section \<open>Example worlds\<close>

text \<open>A world for concrete runs: every URL passes \<open>validators.url\<close>, the k-th GET has
  the k-th of the given outcomes, the TLS handshake times out, and the parser builds the
  given document.\<close>

definition example_world :: "(nat \<Rightarrow> http_outcome) \<Rightarrow> node list \<Rightarrow> world" where
  "example_world outcomes soup =
     \<lparr>validators_url = (\<lambda>url. True),
      http_get = (\<lambda>k url. outcomes k),
      get_server_certificate = (\<lambda>host port. TlsRaises ''timed out''),
      html_parser = (\<lambda>content. soup)\<rparr>"

text \<open>The page \<open><html><head><title>Home</title></head><body></body></html>\<close> and the
  document that the parser builds from it.\<close>

definition home_html :: string where
  "home_html = ''<html><head><title>Home</title></head><body></body></html>''"

definition home_soup :: "node list" where
  "home_soup =
     [Tag ''html'' []
        [Tag ''head'' [] [Tag ''title'' [] [NavigableString ''Home'']], Tag ''body'' [] []]]"

text \<open>What \<open>extract_page_info\<close> returns for that page when the timing request takes a
  quarter of a second.\<close>

definition home_info :: page_info where
  "home_info =
     \<lparr>title = Some ''Home'', description = ''No Description'',
      page_keywords = ''No Keywords'', internal_links = [], external_links = [],
      headings = \<lparr>h1 = [], h2 = [], h3 = [], h4 = [], h5 = [], h6 = []\<rparr>,
      alt_tags = [],
      text_to_html_ratio = PyFloat (2484744621997515 / 36028797018963968),
      page_load_time = PyFloat (1 / 4), mobile_friendly = False\<rparr>"

section \<open>Properties of the SEO score\<close>

lemma if_add_one: "(if c then (x::int) + a else x) = x + (if c then a else 0)"
  by simp

lemma if_add_two:
  "(if c then (x::int) + a else if d then x + b else x)
     = x + (if c then a else if d then b else 0)"
  by simp

text \<open>The score is the sum of eleven independent awards.\<close>

lemma seo_analysis_sum:
  "seo_analysis t d k h a r l m i e =
     (if (case t of None \<Rightarrow> False | Some s \<Rightarrow> truthy_str s \<and> length s \<le> 60) then 10
      else if truthy_opt t then 5 else 0)
   + (if truthy_str d \<and> 150 \<le> length d \<and> length d \<le> 160 then 10
      else if truthy_str d then 5 else 0)
   + (if truthy_str k then 10 else 0)
   + (if truthy_list (h1 h) then 10 else 0)
   + (if truthy_list (h2 h) then 5 else 0)
   + (if truthy_list i then 10 else 0)
   + (if truthy_list e then 10 else 0)
   + (if truthy_list a then 10 else 0)
   + (if num_less (float_literal (1 / 10)) r then 10 else 0)
   + (if num_less l (PyInt 3) then 10 else if num_less l (PyInt 5) then 5 else 0)
   + (if m then 10 else 0)"
  unfolding seo_analysis_def Let_def if_add_one if_add_two by simp

text \<open>The doubles denoted by the literals \<open>0.1\<close> and \<open>0.2\<close>.\<close>

lemma float_literal_tenth:
  "float_literal (1 / 10) = PyFloat (3602879701896397 / 36028797018963968)"
  by code_simp

lemma float_literal_fifth:
  "float_literal (1 / 5) = PyFloat (3602879701896397 / 18014398509481984)"
  by code_simp

lemma float_literal_two: "float_literal 2 = PyFloat 2"
  by code_simp

text \<open>
  C10. For every combination of input signals, \<open>_seo_analysis\<close> returns an integer that is
  a multiple of 5 and lies between 0 and 105 inclusive.
\<close>

theorem seo_analysis_range:
  "0 \<le> seo_analysis t d k h a r l m i e \<and> seo_analysis t d k h a r l m i e \<le> 105
   \<and> 5 dvd seo_analysis t d k h a r l m i e"
proof -
  define p1 :: int where
    "p1 = (if (case t of None \<Rightarrow> False | Some s \<Rightarrow> truthy_str s \<and> length s \<le> 60) then 10
           else if truthy_opt t then 5 else 0)"
  define p2 :: int where
    "p2 = (if truthy_str d \<and> 150 \<le> length d \<and> length d \<le> 160 then 10
           else if truthy_str d then 5 else 0)"
  define p3 :: int where "p3 = (if truthy_str k then 10 else 0)"
  define p4 :: int where "p4 = (if truthy_list (h1 h) then 10 else 0)"
  define p5 :: int where "p5 = (if truthy_list (h2 h) then 5 else 0)"
  define p6 :: int where "p6 = (if truthy_list i then 10 else 0)"
  define p7 :: int where "p7 = (if truthy_list e then 10 else 0)"
  define p8 :: int where "p8 = (if truthy_list a then 10 else 0)"
  define p9 :: int where "p9 = (if num_less (float_literal (1 / 10)) r then 10 else 0)"
  define p10 :: int where
    "p10 = (if num_less l (PyInt 3) then 10 else if num_less l (PyInt 5) then 5 else 0)"
  define p11 :: int where "p11 = (if m then 10 else 0)"
  note defs = p1_def p2_def p3_def p4_def p5_def p6_def p7_def p8_def p9_def p10_def p11_def
  have s: "seo_analysis t d k h a r l m i e
             = p1 + p2 + p3 + p4 + p5 + p6 + p7 + p8 + p9 + p10 + p11"
    unfolding seo_analysis_sum defs ..
  have b: "0 \<le> p1 \<and> p1 \<le> 10" "0 \<le> p2 \<and> p2 \<le> 10" "0 \<le> p3 \<and> p3 \<le> 10"
    "0 \<le> p4 \<and> p4 \<le> 10" "0 \<le> p5 \<and> p5 \<le> 5" "0 \<le> p6 \<and> p6 \<le> 10"
    "0 \<le> p7 \<and> p7 \<le> 10" "0 \<le> p8 \<and> p8 \<le> 10" "0 \<le> p9 \<and> p9 \<le> 10"
    "0 \<le> p10 \<and> p10 \<le> 10" "0 \<le> p11 \<and> p11 \<le> 10"
    by (simp_all add: defs)
  have v: "5 dvd p1" "5 dvd p2" "5 dvd p3" "5 dvd p4" "5 dvd p5" "5 dvd p6" "5 dvd p7"
    "5 dvd p8" "5 dvd p9" "5 dvd p10" "5 dvd p11"
    by (simp_all add: defs)
  have "5 dvd p1 + p2 + p3 + p4 + p5 + p6 + p7 + p8 + p9 + p10 + p11"
    by (intro dvd_add v)
  with b s show ?thesis by simp
qed

text \<open>
  C1, as stated, fails: the combination named by the claim (title of at most 60
  characters, description of length 155, keywords, an h1 and an h2 heading, internal and
  external links, alt tags, ratio 0.2, load time 2.0, mobile friendly) does not score 115.
\<close>

theorem seo_analysis_full_marks_counterexample:
  "seo_analysis (Some ''Home'') (replicate 155 CHR ''d'') ''seo, url''
     \<lparr>h1 = [''Welcome''], h2 = [''News''], h3 = [], h4 = [], h5 = [], h6 = []\<rparr>
     [''logo''] (float_literal (2 / 10)) (float_literal 2) True
     [''/about''] [''https://example.org/''] \<noteq> 115"
  by (simp add: seo_analysis_sum float_literal_tenth float_literal_fifth float_literal_two
      truthy_str_def truthy_list_def)

text \<open>
  C1, amended. The maximum attainable SEO score is 105: \<open>_seo_analysis\<close> returns at most
  105 for every combination of signals, and the combination of a present title of at most
  60 characters, a description of length 155, present keywords, an h1 and an h2 heading,
  non-empty internal and external links, non-empty alt tags, ratio 0.2, load time 2.0 and
  the mobile-friendly flag attains exactly 105.
\<close>

theorem seo_analysis_max_105:
  "seo_analysis t d k h a r l m i e \<le> 105 \<and>
   (t = Some s \<and> s \<noteq> [] \<and> length s \<le> 60 \<and> length d = 155 \<and> k \<noteq> [] \<and> h1 h \<noteq> []
      \<and> h2 h \<noteq> [] \<and> i \<noteq> [] \<and> e \<noteq> [] \<and> a \<noteq> [] \<and> r = float_literal (2 / 10)
      \<and> l = float_literal 2 \<and> m
    \<longrightarrow> seo_analysis t d k h a r l m i e = 105)"
proof (intro conjI impI)
  have "seo_analysis t d k h a r l m i e \<le> 10 + 10 + 10 + 10 + 5 + 10 + 10 + 10 + 10 + 10 + 10"
    unfolding seo_analysis_sum by (intro add_mono) simp_all
  then show "seo_analysis t d k h a r l m i e \<le> 105" by simp
next
  assume c: "t = Some s \<and> s \<noteq> [] \<and> length s \<le> 60 \<and> length d = 155 \<and> k \<noteq> [] \<and> h1 h \<noteq> []
      \<and> h2 h \<noteq> [] \<and> i \<noteq> [] \<and> e \<noteq> [] \<and> a \<noteq> [] \<and> r = float_literal (2 / 10)
      \<and> l = float_literal 2 \<and> m"
  then have "d \<noteq> []" by auto
  with c show "seo_analysis t d k h a r l m i e = 105"
    by (simp add: seo_analysis_sum float_literal_tenth float_literal_fifth float_literal_two
        truthy_str_def truthy_list_def)
qed

theorem seo_analysis_max_105_witness:
  "seo_analysis (Some ''Home'') (replicate 155 CHR ''d'') ''seo, url''
     \<lparr>h1 = [''Welcome''], h2 = [''News''], h3 = [], h4 = [], h5 = [], h6 = []\<rparr>
     [''logo''] (float_literal (2 / 10)) (float_literal 2) True
     [''/about''] [''https://example.org/''] = 105"
  using seo_analysis_max_105 [of "Some ''Home''" "replicate 155 CHR ''d''" "''seo, url''"
      "\<lparr>h1 = [''Welcome''], h2 = [''News''], h3 = [], h4 = [], h5 = [], h6 = []\<rparr>"
      "[''logo'']" "float_literal (2 / 10)" "float_literal 2" True
      "[''/about'']" "[''https://example.org/'']" "''Home''"]
  by simp

section \<open>Properties of the URL checks\<close>

text \<open>
  C3, as stated, fails: \<open>httpsx://x\<close> does not begin with the eight characters
  \<open>https://\<close>, so the three values the claim lists do not hold together.
\<close>

theorem is_https_httpsx_counterexample:
  "\<not> (\<not> is_https ''http://example.com'' \<and> is_https ''https://example.com''
      \<and> is_https ''httpsx://x'')"
  by (simp add: is_https_def startswith_def)

text \<open>
  C3, amended. \<open>is_https\<close> is a literal prefix check on the URL string: it holds exactly
  for the strings that begin with \<open>https://\<close>; it is false on \<open>http://example.com\<close>,
  true on \<open>https://example.com\<close> and false on \<open>httpsx://x\<close>.
\<close>

theorem is_https_prefix_check:
  "(is_https url \<longleftrightarrow> (\<exists>rest. url = ''https://'' @ rest))
   \<and> \<not> is_https ''http://example.com''
   \<and> is_https ''https://example.com''
   \<and> \<not> is_https ''httpsx://x''"
proof -
  have "is_https url \<longleftrightarrow> (\<exists>rest. url = ''https://'' @ rest)"
  proof
    assume "is_https url"
    then have "take (length ''https://'') url = ''https://''"
      unfolding is_https_def startswith_def .
    then have "url = ''https://'' @ drop (length ''https://'') url"
      by (metis append_take_drop_id)
    then show "\<exists>rest. url = ''https://'' @ rest" ..
  next
    assume "\<exists>rest. url = ''https://'' @ rest"
    then show "is_https url" by (auto simp: is_https_def startswith_def)
  qed
  moreover have "\<not> is_https ''http://example.com''"
    by (simp add: is_https_def startswith_def)
  moreover have "is_https ''https://example.com''"
    by (simp add: is_https_def startswith_def)
  moreover have "\<not> is_https ''httpsx://x''"
    by (simp add: is_https_def startswith_def)
  ultimately show ?thesis by blast
qed

section \<open>Properties of fetching\<close>

lemma get_status_code_trace: "snd (get_status_code w url tr) = tr @ [HttpGet url 5]"
  by (simp add: get_status_code_def requests_get_def split: http_outcome.split)



text \<open>
  C5. Whenever the status that \<open>get_status_code\<close> returns is not the integer 200 (an
  integer other than 200, or one of the labels \<open>Request Timeout\<close>,
  \<open>Too Many Redirects\<close>, \<open>Request Exception: ...\<close>), \<open>extract_page_info\<close> returns the
  string \<open>Error: Status code \<close> followed by the status, and its only effect is the one
  GET: no document is parsed. A timeout of that GET yields exactly
  \<open>Error: Status code Request Timeout\<close>.
\<close>

theorem extract_page_info_error_status:
  "(get_status_code w url tr = ((status_code, content), tr') \<and> status_code \<noteq> StatusInt 200
      \<longrightarrow> extract_page_info w url tr
            = (Inr (ErrorStr (''Error: Status code '' @ format_status status_code)),
               tr @ [HttpGet url 5]))
   \<and> (http_get w (length (filter is_HttpGet tr)) url = Raises c e \<and> is_Timeout c
      \<longrightarrow> extract_page_info w url tr
            = (Inr (ErrorStr ''Error: Status code Request Timeout''), tr @ [HttpGet url 5]))"
proof (intro conjI impI)
  assume a: "get_status_code w url tr = ((status_code, content), tr')
             \<and> status_code \<noteq> StatusInt 200"
  then have "tr' = tr @ [HttpGet url 5]"
    using get_status_code_trace [of w url tr] by simp
  with a show "extract_page_info w url tr
            = (Inr (ErrorStr (''Error: Status code '' @ format_status status_code)),
               tr @ [HttpGet url 5])"
    by (simp add: extract_page_info_def)
next
  assume a: "http_get w (length (filter is_HttpGet tr)) url = Raises c e \<and> is_Timeout c"
  then have "get_status_code w url tr
               = ((StatusStr ''Request Timeout'', None), tr @ [HttpGet url 5])"
    by (simp add: get_status_code_def requests_get_def)
  then show "extract_page_info w url tr
            = (Inr (ErrorStr ''Error: Status code Request Timeout''), tr @ [HttpGet url 5])"
    by (simp add: extract_page_info_def)
qed

theorem extract_page_info_error_status_witness:
  "extract_page_info (example_world (\<lambda>k. Response 404 ''Not Found'' (1 / 8)) [])
       ''http://example.com'' []
     = (Inr (ErrorStr ''Error: Status code 404''), [HttpGet ''http://example.com'' 5])
   \<and> extract_page_info (example_world (\<lambda>k. Raises ReadTimeout ''Read timed out.'') [])
       ''http://example.com'' []
     = (Inr (ErrorStr ''Error: Status code Request Timeout''),
        [HttpGet ''http://example.com'' 5])"
proof -
  have g: "get_status_code (example_world (\<lambda>k. Response 404 ''Not Found'' (1 / 8)) [])
       ''http://example.com'' []
     = ((StatusInt 404, Some ''Not Found''), [HttpGet ''http://example.com'' 5])"
    by (simp add: get_status_code_def requests_get_def example_world_def)
  have s: "str_int 404 = ''404''" by code_simp
  show ?thesis
    using g s
      extract_page_info_error_status
        [of "example_world (\<lambda>k. Response 404 ''Not Found'' (1 / 8)) []"
        "''http://example.com''" "[]" "StatusInt 404" "Some ''Not Found''"
        "[HttpGet ''http://example.com'' 5]"]
      extract_page_info_error_status
        [of "example_world (\<lambda>k. Raises ReadTimeout ''Read timed out.'') []"
        "''http://example.com''" "[]" _ _ _ ReadTimeout "''Read timed out.''"]
    by (simp add: example_world_def is_Timeout_def)
qed

section \<open>Properties of the certificate check\<close>

text \<open>
  C8. For every URL that does not begin with \<open>https://\<close>, \<open>check_ssl_certificate\<close>
  returns the fixed message \<open>No SSL Certificate for non-HTTPS URLs\<close> and has no effect:
  the trace is unchanged, so no connection is attempted.
\<close>

theorem check_ssl_certificate_non_https:
  "\<not> is_https url \<Longrightarrow>
     check_ssl_certificate w url tr = (''No SSL Certificate for non-HTTPS URLs'', tr)"
  by (simp add: check_ssl_certificate_def)

theorem check_ssl_certificate_non_https_witness:
  "\<not> is_https ''http://example.com'' \<and>
   check_ssl_certificate (example_world (\<lambda>k. Raises Timeout []) []) ''http://example.com'' []
     = (''No SSL Certificate for non-HTTPS URLs'', [])"
proof -
  have h: "\<not> is_https ''http://example.com''"
    by (simp add: is_https_def startswith_def)
  from h check_ssl_certificate_non_https [OF h] show ?thesis by simp
qed

section \<open>Properties of the format check\<close>

lemma ci_prefix_Nil [simp]: "ci_prefix [] s"
  by (simp add: ci_prefix_def)

lemma ci_prefix_Cons:
  "ci_prefix (c # p) s = (case s of [] \<Rightarrow> False | x # xs \<Rightarrow> py_lower x = py_lower c \<and> ci_prefix p xs)"
  by (cases s) (auto simp: ci_prefix_def)

lemma rmatch_lits:
  "rmatch True (lits p) (n, s)
     = (if ci_prefix p s then [(n + length p, drop (length p) s)] else [])"
proof (induction p arbitrary: n s)
  case Nil
  then show ?case by simp
next
  case (Cons c p)
  show ?case
  proof (cases s)
    case Nil
    then show ?thesis by (simp add: ci_prefix_Cons)
  next
    case (Cons x xs)
    then show ?thesis using Cons.IH [of "Suc n" xs] by (simp add: ci_prefix_Cons)
  qed
qed

lemma ci_prefix_append:
  "ci_prefix (p @ q) s = (ci_prefix p s \<and> ci_prefix q (drop (length p) s))"
proof (induction p arbitrary: s)
  case Nil
  then show ?case by simp
next
  case (Cons c p)
  then show ?case by (cases s) (simp_all add: ci_prefix_Cons)
qed

lemma rmatch_scheme:
  "rmatch True scheme_regex (0, s) \<noteq> []
     \<longleftrightarrow> ci_prefix ''https://'' s \<or> ci_prefix ''http://'' s \<or> ci_prefix ''ftp://'' s"
proof -
  have a: "ci_prefix ''https://'' s
             = (ci_prefix ''http'' s \<and> ci_prefix ''s'' (drop (length ''http'') s)
                \<and> ci_prefix ''://'' (drop (length ''https'') s))"
    using ci_prefix_append [of "''http''" "''s://''" s]
      ci_prefix_append [of "''s''" "''://''" "drop (length ''http'') s"]
    by simp
  have b: "ci_prefix ''http://'' s
             = (ci_prefix ''http'' s \<and> ci_prefix ''://'' (drop (length ''http'') s))"
    using ci_prefix_append [of "''http''" "''://''" s] by simp
  have c: "ci_prefix ''ftp://'' s
             = (ci_prefix ''ftp'' s \<and> ci_prefix ''://'' (drop (length ''ftp'') s))"
    using ci_prefix_append [of "''ftp''" "''://''" s] by simp
  have o: "rmatch True (Lit c) (n, t)
             = (if ci_prefix [c] t then [(Suc n, drop (Suc 0) t)] else [])" for c n t
    by (cases t) (simp_all add: ci_prefix_Cons)
  show ?thesis
    unfolding a b c scheme_regex_def
    by (auto simp add: rmatch_lits o simp del: lits.simps)
qed

lemma startswith_lower:
  "map py_lower p = p \<Longrightarrow> startswith (map py_lower s) p = ci_prefix p s"
  unfolding startswith_def ci_prefix_def
  by (metis length_map length_take min_def take_map nat_le_linear)

lemma is_valid_url_spec: "is_valid_url url = spec_scheme_prefix url"
proof -
  have v: "is_valid_url url = (rmatch True scheme_regex (0, url) \<noteq> [])"
    by (simp add: is_valid_url_def re_match_def split: list.split)
  have 1: "startswith (map py_lower url) ''http://'' = ci_prefix ''http://'' url"
    by (rule startswith_lower) code_simp
  have 2: "startswith (map py_lower url) ''https://'' = ci_prefix ''https://'' url"
    by (rule startswith_lower) code_simp
  have 3: "startswith (map py_lower url) ''ftp://'' = ci_prefix ''ftp://'' url"
    by (rule startswith_lower) code_simp
  show ?thesis
    unfolding v rmatch_scheme spec_scheme_prefix_def 1 2 3 by blast
qed

text \<open>
  C4. \<open>is_valid_format\<close> is true exactly when the URL matches the pattern
  \<open>^(https?|ftp)://\<close> without regard to case and passes \<open>validators.url\<close>; the pattern
  matches exactly the strings that begin with \<open>http://\<close>, \<open>https://\<close> or \<open>ftp://\<close> in
  any case. For a string that does not match, \<open>is_valid_format\<close> is false and the run
  only sets up logging and prints \<open>URL format is invalid.\<close>: no network call occurs.
\<close>

theorem is_valid_format_iff:
  "(is_valid_format w url \<longleftrightarrow> re_match True scheme_regex url \<noteq> None \<and> validators_url w url)
   \<and> (re_match True scheme_regex url \<noteq> None \<longleftrightarrow> spec_scheme_prefix url)
   \<and> (re_match True scheme_regex url = None
        \<longrightarrow> \<not> is_valid_format w url
            \<and> main w url = (Inr (), [SetupLogging, Print ''URL format is invalid.'' NoVal])
            \<and> filter is_network (snd (main w url)) = [])"
proof -
  have 1: "is_valid_format w url
             \<longleftrightarrow> re_match True scheme_regex url \<noteq> None \<and> validators_url w url"
    by (simp add: is_valid_format_def is_valid_url_def)
  have 2: "re_match True scheme_regex url \<noteq> None \<longleftrightarrow> spec_scheme_prefix url"
    using is_valid_url_spec [of url] by (simp add: is_valid_url_def)
  have 3: "main w url = (Inr (), [SetupLogging, Print ''URL format is invalid.'' NoVal])"
    if "re_match True scheme_regex url = None"
    using that by (simp add: main_def is_valid_format_def is_valid_url_def)
  have 4: "\<not> is_valid_format w url
           \<and> main w url = (Inr (), [SetupLogging, Print ''URL format is invalid.'' NoVal])
           \<and> filter is_network (snd (main w url)) = []"
    if "re_match True scheme_regex url = None"
    using that 1 3 by simp
  from 1 2 4 show ?thesis by blast
qed

theorem is_valid_format_iff_witness:
  "re_match True scheme_regex ''example.com'' = None
   \<and> \<not> is_valid_format (example_world (\<lambda>k. Raises Timeout []) []) ''example.com''
   \<and> main (example_world (\<lambda>k. Raises Timeout []) []) ''example.com''
       = (Inr (), [SetupLogging, Print ''URL format is invalid.'' NoVal])"
proof -
  have h: "re_match True scheme_regex ''example.com'' = None"
    by code_simp
  from h is_valid_format_iff [of "example_world (\<lambda>k. Raises Timeout []) []" "''example.com''"]
  show ?thesis by simp
qed

section \<open>Properties of the extraction\<close>

subsection \<open>Rounding\<close>




lemma pow2_nat: "pow2 (int n) = 2 ^ n"
  by (simp add: pow2_def)









subsection \<open>The text-to-HTML ratio\<close>

lemma get_status_code_200:
  "http_get w (length (filter is_HttpGet tr)) url = Response code content elapsed \<Longrightarrow>
     get_status_code w url tr = ((StatusInt code, Some content), tr @ [HttpGet url 5])"
  by (simp add: get_status_code_def requests_get_def)


lemma extract_page_info_returned:
  assumes "http_get w (length (filter is_HttpGet tr)) url = Response 200 content elapsed"
    and "extract_page_info w url tr = (Inr (PageInfo p), tr')"
  shows "content_or_default (find_meta (html_parser w content) ''description'')
           ''No Description'' = Inr (description p)
         \<and> content_or_default (find_meta (html_parser w content) ''keywords'')
           ''No Keywords'' = Inr (page_keywords p)
         \<and> (if 0 < int (length content)
          then int_true_divide (int (length (get_text (html_parser w content))))
                 (int (length content))
          else Inr (PyInt 0)) = Inr (text_to_html_ratio p)"
  using assms(2) get_status_code_200 [OF assms(1)]
  by (auto simp add: extract_page_info_def Let_def split: prod.splits sum.splits if_splits)




subsection \<open>The keywords default\<close>

text \<open>For every 200 response without a keywords meta element, the dictionary holds the
  default, and the default earns the ten points of the keywords rule.\<close>

lemma keywords_default_awarded:
  assumes "http_get w (length (filter is_HttpGet tr)) url = Response 200 content elapsed"
    and "find_meta (html_parser w content) ''keywords'' = None"
    and "extract_page_info w url tr = (Inr (PageInfo p), tr')"
  shows "page_keywords p = ''No Keywords''
         \<and> seo_analysis t d (page_keywords p) h a r l m i e = seo_analysis t d [] h a r l m i e + 10"
proof -
  have "page_keywords p = ''No Keywords''"
    using extract_page_info_returned [OF assms(1,3)] assms(2) by simp
  then show ?thesis
    by (simp add: seo_analysis_sum truthy_str_def)
qed

text \<open>
  C2, at a failing input. The page
  \<open><html><head><title>Home</title></head><body></body></html>\<close> has no keywords meta
  element; \<open>extract_page_info\<close> yields the default \<open>No Keywords\<close> for it, and the score
  computed from that result is 35, ten more than the 25 that the same signals score with
  no keywords: the keywords rule awards 10 points to the default.
\<close>

theorem keywords_default_scores_ten:
  "find_meta home_soup ''keywords'' = None
   \<and> fst (extract_page_info (example_world (\<lambda>k. Response 200 home_html (1 / 4)) home_soup)
       ''https://example.com'' []) = Inr (PageInfo home_info)
   \<and> page_keywords home_info = ''No Keywords''
   \<and> seo_analysis (title home_info) (description home_info) (page_keywords home_info)
         (headings home_info) (alt_tags home_info) (text_to_html_ratio home_info)
         (page_load_time home_info) (mobile_friendly home_info) (internal_links home_info)
         (external_links home_info) = 35
   \<and> seo_analysis (title home_info) (description home_info) []
         (headings home_info) (alt_tags home_info) (text_to_html_ratio home_info)
         (page_load_time home_info) (mobile_friendly home_info) (internal_links home_info)
         (external_links home_info) = 25"
  by code_simp

section \<open>Properties of the run\<close>

text \<open>
  C9, at two failing inputs. The URL \<open>https://example.com\<close> has a valid format. When the
  first GET returns status 200 and the GET of \<open>extract_page_info\<close> times out, \<open>main\<close>
  holds an integer status and the error string for \<open>page_info\<close>; after four printed lines
  \<open>page_info['title']\<close> raises \<open>TypeError\<close>, which nothing catches. The same happens
  when both GETs return status 404.
\<close>

theorem main_type_error_on_error_string:
  "main (example_world (\<lambda>k. if k = 0 then Response 200 home_html (1 / 4)
                            else Raises ReadTimeout ''Read timed out.'') home_soup)
       ''https://example.com''
     = (Inl (TypeError ''string indices must be integers''),
        [SetupLogging, HttpGet ''https://example.com'' 5, HttpGet ''https://example.com'' 5,
         GetServerCertificate ''example.com'' 443,
         Print ''URL is valid and returned status code: '' (IntVal 200),
         Print ''HTTPS Check: '' (StrVal ''Yes''),
         Print ''SSL Certificate: '' (StrVal ''SSL Certificate Error: timed out''),
         Print ''Page Info:'' NoVal])
   \<and> fst (main (example_world (\<lambda>k. Response 404 ''Not Found'' (1 / 8)) [])
            ''http://example.com'')
     = Inl (TypeError ''string indices must be integers'')"
  by code_simp

end
